theory Spec2Isabelle
  imports Main "HOL-Library.Word"
begin

section \<open>Identifier enums\<close>

text \<open>
  A C++ unscoped enum declaration is a list of enumerators, each with an optional
  initializer. An enumerator without initializer gets the value of the previous one plus
  one (zero for the first); an initializer is an integer literal or the name of an
  enumerator declared earlier in the same enum. \<open>enum_values\<close> computes the value of each
  enumerator, in declaration order; a reference to a name not yet declared is ill-formed
  (\<open>None\<close>).
\<close>

datatype initializer = NoInit | IntInit int | NameInit string

type_synonym enum_decl = "(string \<times> initializer) list"

fun enum_values_from :: "int \<Rightarrow> (string \<times> int) list \<Rightarrow> enum_decl \<Rightarrow> (string \<times> int) list option" where
  "enum_values_from nxt env [] = Some env"
| "enum_values_from nxt env ((n, NoInit) # ds) = enum_values_from (nxt + 1) (env @ [(n, nxt)]) ds"
| "enum_values_from nxt env ((n, IntInit k) # ds) = enum_values_from (k + 1) (env @ [(n, k)]) ds"
| "enum_values_from nxt env ((n, NameInit m) # ds) =
     (case map_of env m of
        None \<Rightarrow> None
      | Some k \<Rightarrow> enum_values_from (k + 1) (env @ [(n, k)]) ds)"

definition enum_values :: "enum_decl \<Rightarrow> (string \<times> int) list option" where
  "enum_values d = enum_values_from 0 [] d"

text \<open>\<open>regression_training_types.h\<close>, lines 52-57 and 63-67.\<close>

definition InputId :: enum_decl where
  "InputId = [(''data'', NoInit), (''dependentVariables'', NoInit),
              (''lastInputId'', NameInit ''dependentVariables'')]"

definition ResultId :: enum_decl where
  "ResultId = [(''model'', NoInit), (''lastResultId'', NameInit ''model'')]"

text \<open>\<open>multi_class_classifier_quality_metric_set_types.h\<close>, lines 43-46.\<close>

definition QualityMetricId :: enum_decl where
  "QualityMetricId = [(''confusionMatrix'', IntInit 0)]"

text \<open>
  A sentinel is an enumerator named \<open>last...Id\<close>. The valid identifiers of an enum are the
  values of its other enumerators. The enum is densely packed when its valid identifiers
  are exactly \<open>0, ..., max\<close>, and it carries its sentinel when exactly one enumerator is a
  sentinel and its value is the largest valid identifier.
\<close>

definition is_sentinel :: "string \<Rightarrow> bool" where
  "is_sentinel n = (take 4 n = ''last'' \<and> drop (length n - 2) n = ''Id'' \<and> 6 < length n)"

definition valid_ids :: "(string \<times> int) list \<Rightarrow> int list" where
  "valid_ids vs = map snd (filter (\<lambda>p. \<not> is_sentinel (fst p)) vs)"

definition sentinels :: "(string \<times> int) list \<Rightarrow> (string \<times> int) list" where
  "sentinels vs = filter (\<lambda>p. is_sentinel (fst p)) vs"

definition densely_packed :: "enum_decl \<Rightarrow> bool" where
  "densely_packed d =
     (case enum_values d of
        None \<Rightarrow> False
      | Some vs \<Rightarrow> valid_ids vs \<noteq> [] \<and> distinct (valid_ids vs) \<and>
                  set (valid_ids vs) = set [0 .. Max (set (valid_ids vs))])"

definition carries_last_sentinel :: "enum_decl \<Rightarrow> bool" where
  "carries_last_sentinel d =
     (case enum_values d of
        None \<Rightarrow> False
      | Some vs \<Rightarrow>
          (case sentinels vs of
             [(n, v)] \<Rightarrow> valid_ids vs \<noteq> [] \<and> v = Max (set (valid_ids vs))
           | _ \<Rightarrow> False))"

section \<open>Multi-class classifier quality metric set: Parameter\<close>

text \<open>
  \<open>multi_class_classifier_quality_metric_set_types.h\<close>, lines 60-66:
  \<^verbatim>\<open>Parameter(size_t nClasses = 2) : nClasses(nClasses) {}\<close>.
  \<open>size_t\<close> is a 64-bit unsigned integer; the default argument is the case \<open>None\<close>.
\<close>

type_synonym size_t = "64 word"

record qms_Parameter =
  nClasses :: size_t

definition Parameter_ctor :: "size_t option \<Rightarrow> qms_Parameter" where
  "Parameter_ctor arg = \<lparr>nClasses = (case arg of None \<Rightarrow> 2 | Some n \<Rightarrow> n)\<rparr>"

section \<open>Multi-class classifier quality metric set: ResultCollection\<close>

text \<open>
  Objects live at addresses; a shared pointer is an address or null (\<open>None\<close>), together
  with the class it is declared to point to. The dynamic type of the object at an address
  is recorded in a type store. \<open>SerializationIface\<close> is the common base class of every
  stored object.
\<close>

type_synonym addr = nat

datatype class_id = SerializationIface | multiclass_confusion_matrix_Result
  | binary_confusion_matrix_Result

type_synonym type_store = "addr \<Rightarrow> class_id option"

record SharedPtr =
  pointee_type :: class_id
  ptr :: "addr option"

definition derives_from :: "class_id \<Rightarrow> class_id \<Rightarrow> bool" where
  "derives_from c b = (c = b \<or> b = SerializationIface)"

text \<open>
  A pointer is well typed in a type store when it is null or the object it points to has a
  dynamic type derived from the pointer's declared class.
\<close>

definition well_typed :: "type_store \<Rightarrow> SharedPtr \<Rightarrow> bool" where
  "well_typed ts p =
     (case ptr p of
        None \<Rightarrow> True
      | Some a \<Rightarrow> (case ts a of None \<Rightarrow> False | Some c \<Rightarrow> derives_from c (pointee_type p)))"

text \<open>
  Modelled from the spec: the base class \<open>algorithms::quality_metric_set::ResultCollection\<close>
  and its indexing operator are declared in \<open>algorithms/algorithm_quality_metric_set_types.h\<close>,
  which is not among the sources. It is the result set keyed by a metric identifier (4.7):
  a lookup returns the stored handle, or the absent handle when the key is unset (4.2).
\<close>

type_synonym KeyValueDataCollection = "(size_t \<times> addr option) list"

definition KeyValueDataCollection_index :: "KeyValueDataCollection \<Rightarrow> size_t \<Rightarrow> SharedPtr" where
  "KeyValueDataCollection_index c k =
     \<lparr>pointee_type = SerializationIface,
      ptr = (case map_of c k of None \<Rightarrow> None | Some p \<Rightarrow> p)\<rparr>"

text \<open>
  Modelled from the spec: the template \<open>services::staticPointerCast\<close> is declared in
  \<open>services/daal_shared_ptr.h\<close>, which is not among the sources. The spec (4.7 and 9) tells
  a checked cast, which inspects the dynamic type and yields null on a mismatch, from an
  unchecked reinterpretation. A static pointer cast is the unchecked one: it keeps the
  address and changes only the declared class, without consulting any dynamic type.
  \<open>checked_cast\<close> is the cast the spec describes, for comparison.
\<close>

definition staticPointerCast :: "class_id \<Rightarrow> SharedPtr \<Rightarrow> SharedPtr" where
  "staticPointerCast T p = \<lparr>pointee_type = T, ptr = ptr p\<rparr>"

definition checked_cast :: "type_store \<Rightarrow> class_id \<Rightarrow> SharedPtr \<Rightarrow> SharedPtr" where
  "checked_cast ts T p =
     (case ptr p of
        None \<Rightarrow> \<lparr>pointee_type = T, ptr = None\<rparr>
      | Some a \<Rightarrow>
          (case ts a of
             None \<Rightarrow> \<lparr>pointee_type = T, ptr = None\<rparr>
           | Some c \<Rightarrow> \<lparr>pointee_type = T, ptr = (if derives_from c T then Some a else None)\<rparr>))"

text \<open>
  \<open>multi_class_classifier_quality_metric_set_types.h\<close>, lines 85-89: \<open>getResult\<close> converts
  the identifier to \<open>size_t\<close>, indexes the collection and applies
  \<open>staticPointerCast\<close> from \<open>SerializationIface\<close> to the multi-class confusion matrix
  \<open>Result\<close>. The only identifier is \<open>confusionMatrix = 0\<close>.
\<close>

datatype QualityMetricId_t = confusionMatrix

fun size_t_of_QualityMetricId :: "QualityMetricId_t \<Rightarrow> size_t" where
  "size_t_of_QualityMetricId confusionMatrix = 0"

definition getResult :: "KeyValueDataCollection \<Rightarrow> QualityMetricId_t \<Rightarrow> SharedPtr" where
  "getResult this qid =
     staticPointerCast multiclass_confusion_matrix_Result
       (KeyValueDataCollection_index this (size_t_of_QualityMetricId qid))"

definition example_collection :: KeyValueDataCollection where
  "example_collection = [(0, Some 0)]"

definition example_binary_store :: type_store where
  "example_binary_store = (\<lambda>_. None)(0 := Some binary_confusion_matrix_Result)"

definition example_multiclass_store :: type_store where
  "example_multiclass_store = (\<lambda>_. None)(0 := Some multiclass_confusion_matrix_Result)"

section \<open>Forward hyperbolic tangent layer: Result::allocate\<close>

text \<open>
  The heap holds the tensors and layer data objects that slots point to; an address is an
  index into it and a new object is appended. A homogeneous tensor carries its element
  type (\<open>DAAL_FPTYPE\<close> is instantiated with \<open>float\<close> and \<open>double\<close>) and its dimensions; a
  \<open>LayerData\<close> object is a key-value collection of handles.
\<close>

datatype fpType = fp_float | fp_double

datatype object =
    HomogenTensor fpType "nat list"
  | LayerData "(nat \<times> addr option) list"

type_synonym heap = "object list"

definition deref :: "heap \<Rightarrow> addr \<Rightarrow> object option" where
  "deref h a = (if a < length h then Some (h ! a) else None)"

definition new :: "object \<Rightarrow> heap \<Rightarrow> addr \<times> heap" where
  "new ob h = (length h, h @ [ob])"

text \<open>
  The identifiers \<open>layers::forward::data\<close>, \<open>layers::forward::value\<close> and
  \<open>layers::forward::resultForBackward\<close> that \<open>allocate\<close> uses; their enums are declared
  outside the sources. The state that \<open>allocate\<close> works on is the slot collection of the
  \<open>Result\<close> object it is called on, and the heap.
\<close>

datatype forward_InputId = layers_forward_data

datatype forward_ResultId = layers_forward_value | layers_forward_resultForBackward

type_synonym forward_Input = "forward_InputId \<Rightarrow> addr option"

record layers_Parameter =
  predictionStage :: bool

record alloc_state =
  slots :: "forward_ResultId \<Rightarrow> addr option"
  heap :: heap

text \<open>
  The source dereferences pointers without a check; in C++ a null dereference has no
  defined behaviour. The model makes it a fault: \<open>NullDereference\<close> for a null handle,
  \<open>InvalidObject\<close> for a handle that does not point to a tensor.
\<close>

datatype fault = NullDereference | InvalidObject

text \<open>
  Modelled from the spec: the accessors \<open>get\<close> and \<open>set\<close> of \<open>layers::forward::Input\<close> and
  \<open>layers::forward::Result\<close> are declared outside the sources. They are the slot collection
  operations (4.2): \<open>get\<close> returns the stored handle or the absent one, \<open>set\<close> overwrites
  the binding.
\<close>

definition Input_get :: "forward_Input \<Rightarrow> forward_InputId \<Rightarrow> addr option" where
  "Input_get inp i = inp i"

definition Result_get :: "alloc_state \<Rightarrow> forward_ResultId \<Rightarrow> addr option" where
  "Result_get s i = slots s i"

definition Result_set :: "forward_ResultId \<Rightarrow> addr option \<Rightarrow> alloc_state \<Rightarrow> alloc_state" where
  "Result_set i p s = s\<lparr>slots := (slots s)(i := p)\<rparr>"

text \<open>
  Modelled from the spec: the tensor class is declared outside the sources. The numeric
  storage collaborator exposes \<open>getDimensions()\<close>, the ordered sequence of extents (6).
\<close>

definition getDimensions :: "heap \<Rightarrow> addr \<Rightarrow> nat list option" where
  "getDimensions h a =
     (case deref h a of
        Some (HomogenTensor fp dims) \<Rightarrow> Some dims
      | _ \<Rightarrow> None)"

text \<open>\<open>set(id, SharedPtr(new ...))\<close>: allocate an object and store its handle in a slot.\<close>

definition set_new :: "forward_ResultId \<Rightarrow> object \<Rightarrow> alloc_state \<Rightarrow> alloc_state" where
  "set_new i ob s =
     (let (a, h) = new ob (heap s) in Result_set i (Some a) (s\<lparr>heap := h\<rparr>))"

text \<open>
  Modelled from the spec: the macro \<open>DAAL_ALLOCATE_TENSOR_AND_SET\<close> is defined outside the
  sources. Allocation materializes a missing result slot with backing storage of the given
  shape and of the element type selected by the caller (4.4).
\<close>

definition DAAL_ALLOCATE_TENSOR_AND_SET ::
    "fpType \<Rightarrow> forward_ResultId \<Rightarrow> nat list \<Rightarrow> alloc_state \<Rightarrow> alloc_state" where
  "DAAL_ALLOCATE_TENSOR_AND_SET algorithmFPType i dims s =
     set_new i (HomogenTensor algorithmFPType dims) s"

text \<open>
  \<open>tanh_layer_forward_fpt.cpp\<close>, lines 48-66:
  \<^verbatim>\<open>
  if (!get(layers::forward::value))
  {
      DAAL_ALLOCATE_TENSOR_AND_SET(layers::forward::value,
          in->get(layers::forward::data)->getDimensions());
  }
  const layers::Parameter *parameter = static_cast<const layers::Parameter * >(par);
  if(!parameter->predictionStage)
  {
      if (!get(layers::forward::resultForBackward))
      {
          set(layers::forward::resultForBackward, services::SharedPtr<LayerData>(new LayerData()));
      }
      setResultForBackward(input);
  }
  \<close>
  The template argument \<open>algorithmFPType\<close> is the first argument. The virtual method
  \<open>setResultForBackward\<close> is defined outside the sources and is a parameter of the model:
  a function from the input and the state to the state after the call. The pointers
  \<open>input\<close> and \<open>par\<close> themselves are taken to be non-null and of the classes they are cast to.
\<close>

definition allocate ::
    "fpType \<Rightarrow> (forward_Input \<Rightarrow> alloc_state \<Rightarrow> alloc_state) \<Rightarrow> forward_Input \<Rightarrow>
     layers_Parameter \<Rightarrow> int \<Rightarrow> alloc_state \<Rightarrow> fault + alloc_state" where
  "allocate algorithmFPType setResultForBackward input par method s =
     (case (if Result_get s layers_forward_value = None
            then (case Input_get input layers_forward_data of
                    None \<Rightarrow> Inl NullDereference
                  | Some a \<Rightarrow>
                      (case getDimensions (heap s) a of
                         None \<Rightarrow> Inl InvalidObject
                       | Some dims \<Rightarrow>
                           Inr (DAAL_ALLOCATE_TENSOR_AND_SET algorithmFPType
                                  layers_forward_value dims s)))
            else Inr s) of
        Inl e \<Rightarrow> Inl e
      | Inr s1 \<Rightarrow>
          if \<not> predictionStage par
          then Inr (setResultForBackward input
                      (if Result_get s1 layers_forward_resultForBackward = None
                       then set_new layers_forward_resultForBackward (LayerData []) s1
                       else s1))
          else Inr s1)"

text \<open>
  What the properties below ask of \<open>setResultForBackward\<close>: it leaves the handles in the
  slots of the \<open>Result\<close> in place (\<open>keeps_slots\<close>), and it leaves tensor objects as they
  are (\<open>keeps_tensors\<close>); it may write to layer data objects.
\<close>

definition keeps_slots :: "(forward_Input \<Rightarrow> alloc_state \<Rightarrow> alloc_state) \<Rightarrow> bool" where
  "keeps_slots f = (\<forall>inp s. slots (f inp s) = slots s)"

definition keeps_tensors :: "(forward_Input \<Rightarrow> alloc_state \<Rightarrow> alloc_state) \<Rightarrow> bool" where
  "keeps_tensors f =
     (\<forall>inp s a fp dims. deref (heap s) a = Some (HomogenTensor fp dims) \<longrightarrow>
        deref (heap (f inp s)) a = Some (HomogenTensor fp dims))"

definition holds_tensor :: "heap \<Rightarrow> addr option \<Rightarrow> bool" where
  "holds_tensor h p = (case p of None \<Rightarrow> False | Some a \<Rightarrow> getDimensions h a \<noteq> None)"

text \<open>
  An instance of the parameter, used in the examples: it stores the handle of the value
  slot in the layer data object of the \<open>resultForBackward\<close> slot, under the key
  \<open>auxValue\<close>.
\<close>

definition auxValue :: nat where
  "auxValue = 0"

definition store_auxValue :: "forward_Input \<Rightarrow> alloc_state \<Rightarrow> alloc_state" where
  "store_auxValue inp s =
     (case Result_get s layers_forward_resultForBackward of
        None \<Rightarrow> s
      | Some a \<Rightarrow>
          (case deref (heap s) a of
             Some (LayerData kvs) \<Rightarrow>
               s\<lparr>heap := (heap s)[a := LayerData ((auxValue, Result_get s layers_forward_value) #
                                        filter (\<lambda>kv. fst kv \<noteq> auxValue) kvs)]\<rparr>
           | _ \<Rightarrow> s))"

definition example_input :: forward_Input where
  "example_input = (\<lambda>_. Some 0)"

definition example_input_no_data :: forward_Input where
  "example_input_no_data = (\<lambda>_. None)"

definition example_fresh :: alloc_state where
  "example_fresh = \<lparr>slots = (\<lambda>_. None), heap = [HomogenTensor fp_double [2, 3]]\<rparr>"

definition example_preallocated :: alloc_state where
  "example_preallocated =
     \<lparr>slots = (\<lambda>_. None)(layers_forward_value := Some 1),
      heap = [HomogenTensor fp_double [2, 3], HomogenTensor fp_double [1]]\<rparr>"

section \<open>Regression training: Input, Result and PartialResult\<close>

text \<open>
  The error taxonomy and the composite status of the spec (4.3, 6, 7): a status carries
  every finding and at most one fatal error, the first one found. All errors of the
  taxonomy are fatal.
\<close>

datatype error = StructuralError | ShapeMismatchError | ParameterDomainError
  | TypeMismatchError | SerializationError

record Status =
  findings :: "error list"
  fatal :: "error option"

definition Status_ok :: Status where
  "Status_ok = \<lparr>findings = [], fatal = None\<rparr>"

definition Status_add :: "error \<Rightarrow> Status \<Rightarrow> Status" where
  "Status_add e st =
     \<lparr>findings = findings st @ [e],
      fatal = (case fatal st of None \<Rightarrow> Some e | Some f \<Rightarrow> Some f)\<rparr>"

record NumericTable =
  numberOfRows :: nat
  numberOfColumns :: nat

datatype training_InputId = data | dependentVariables

datatype training_ResultId = model

type_synonym training_Input = "training_InputId \<Rightarrow> NumericTable option"

text \<open>
  The base \<open>daal::algorithms::Parameter\<close> that \<open>check\<close> receives; regression training
  declares no parameter field in its header.
\<close>

datatype algorithms_Parameter = algorithms_Parameter

text \<open>
  Modelled from the spec: \<open>Input::check\<close> is only declared in
  \<open>regression_training_types.h\<close> (line 111); its body is not among the sources. The spec
  (4.3, 7): \<open>check\<close> verifies the presence of all required slots (a \<open>StructuralError\<close>
  for an absent one) and that the row count of \<open>data\<close> equals the row count of
  \<open>dependentVariables\<close> (a \<open>ShapeMismatchError\<close> otherwise), and aggregates all findings
  into one status.
\<close>

definition Input_check :: "training_Input \<Rightarrow> algorithms_Parameter \<Rightarrow> int \<Rightarrow> Status" where
  "Input_check this par method =
     (let st1 = (if this data = None then Status_add StructuralError Status_ok else Status_ok);
          st2 = (if this dependentVariables = None then Status_add StructuralError st1 else st1)
      in case (this data, this dependentVariables) of
           (Some x, Some y) \<Rightarrow>
             if numberOfRows x \<noteq> numberOfRows y then Status_add ShapeMismatchError st2 else st2
         | _ \<Rightarrow> st2)"

definition example_tables :: "nat \<Rightarrow> nat \<Rightarrow> training_Input" where
  "example_tables m n = (\<lambda>i. case i of
      data \<Rightarrow> Some \<lparr>numberOfRows = m, numberOfColumns = 3\<rparr>
    | dependentVariables \<Rightarrow> Some \<lparr>numberOfRows = n, numberOfColumns = 1\<rparr>)"

subsection \<open>Serialization\<close>

text \<open>
  A serializable object is its serialization tag and its contents, as it writes them; an
  archive is a sequence of numbers. The slot collection of a \<open>Result\<close> or
  \<open>PartialResult\<close> is a list of handles to such objects, absent ones included.
\<close>

record SerializableObject =
  serializationTag :: nat
  contents :: "nat list"

type_synonym archive = "nat list"

type_synonym DataCollection = "SerializableObject option list"

text \<open>
  Modelled from the spec: the base classes \<open>daal::algorithms::Result\<close> and
  \<open>daal::algorithms::PartialResult\<close>, their \<open>serialImpl\<close> and the archives are declared
  outside the sources. The base serializes the slot collection (4.6): which slots are
  populated, and the type and value of each object. Reading fails with a
  \<open>SerializationError\<close> on a truncated or corrupt stream (7).
\<close>

fun write_object :: "SerializableObject option \<Rightarrow> archive" where
  "write_object None = [0]"
| "write_object (Some ob) = 1 # serializationTag ob # length (contents ob) # contents ob"

fun read_object :: "archive \<Rightarrow> error + (SerializableObject option \<times> archive)" where
  "read_object (0 # rest) = Inr (None, rest)"
| "read_object (Suc 0 # t # n # rest) =
     (if n \<le> length rest
      then Inr (Some \<lparr>serializationTag = t, contents = take n rest\<rparr>, drop n rest)
      else Inl SerializationError)"
| "read_object _ = Inl SerializationError"

fun read_objects :: "nat \<Rightarrow> archive \<Rightarrow> error + (DataCollection \<times> archive)" where
  "read_objects 0 arch = Inr ([], arch)"
| "read_objects (Suc n) arch =
     (case read_object arch of
        Inl e \<Rightarrow> Inl e
      | Inr (ob, rest) \<Rightarrow>
          (case read_objects n rest of
             Inl e \<Rightarrow> Inl e
           | Inr (obs, rest') \<Rightarrow> Inr (ob # obs, rest')))"

definition write_collection :: "DataCollection \<Rightarrow> archive" where
  "write_collection c = length c # concat (map write_object c)"

definition read_collection :: "archive \<Rightarrow> error + (DataCollection \<times> archive)" where
  "read_collection arch =
     (case arch of [] \<Rightarrow> Inl SerializationError | n # rest \<Rightarrow> read_objects n rest)"

definition Argument_serialImpl ::
    "bool \<Rightarrow> archive \<times> DataCollection \<Rightarrow> error + (archive \<times> DataCollection)" where
  "Argument_serialImpl onDeserialize st =
     (case st of (arch, storage) \<Rightarrow>
        if onDeserialize
        then (case read_collection arch of
                Inl e \<Rightarrow> Inl e
              | Inr (c, rest) \<Rightarrow> Inr (rest, c))
        else Inr (arch @ write_collection storage, storage))"

definition algorithms_Result_serialImpl ::
    "bool \<Rightarrow> archive \<times> DataCollection \<Rightarrow> error + (archive \<times> DataCollection)" where
  "algorithms_Result_serialImpl = Argument_serialImpl"

definition algorithms_PartialResult_serialImpl ::
    "bool \<Rightarrow> archive \<times> DataCollection \<Rightarrow> error + (archive \<times> DataCollection)" where
  "algorithms_PartialResult_serialImpl = Argument_serialImpl"

text \<open>
  \<open>regression_training_types.h\<close>, lines 130-140 and 183-193: \<open>serialImpl\<close> of
  \<open>PartialResult\<close> and of \<open>Result\<close> calls the \<open>serialImpl\<close> of its base class with the same
  archive and the same \<open>onDeserialize\<close> flag, and does nothing else; \<open>serializeImpl\<close>
  instantiates the flag with \<open>false\<close>, \<open>deserializeImpl\<close> with \<open>true\<close>. The state is the
  archive and the slot collection of the object.
\<close>

definition PartialResult_serialImpl ::
    "bool \<Rightarrow> archive \<times> DataCollection \<Rightarrow> error + (archive \<times> DataCollection)" where
  "PartialResult_serialImpl onDeserialize st = algorithms_PartialResult_serialImpl onDeserialize st"

definition PartialResult_serializeImpl ::
    "archive \<times> DataCollection \<Rightarrow> error + (archive \<times> DataCollection)" where
  "PartialResult_serializeImpl st = PartialResult_serialImpl False st"

definition PartialResult_deserializeImpl ::
    "archive \<times> DataCollection \<Rightarrow> error + (archive \<times> DataCollection)" where
  "PartialResult_deserializeImpl st = PartialResult_serialImpl True st"

definition Result_serialImpl ::
    "bool \<Rightarrow> archive \<times> DataCollection \<Rightarrow> error + (archive \<times> DataCollection)" where
  "Result_serialImpl onDeserialize st = algorithms_Result_serialImpl onDeserialize st"

definition Result_serializeImpl ::
    "archive \<times> DataCollection \<Rightarrow> error + (archive \<times> DataCollection)" where
  "Result_serializeImpl st = Result_serialImpl False st"

definition Result_deserializeImpl ::
    "archive \<times> DataCollection \<Rightarrow> error + (archive \<times> DataCollection)" where
  "Result_deserializeImpl st = Result_serialImpl True st"

subsection \<open>Result::check\<close>

text \<open>
  Modelled from the spec: \<open>Result::get\<close> and \<open>Result::check\<close> are only declared in
  \<open>regression_training_types.h\<close> (lines 162 and 179); their bodies are not among the
  sources. \<open>check\<close> is declared \<open>const\<close> and takes pointers to a \<open>const\<close> input and a
  \<open>const\<close> parameter. The spec (4.5, 7): it confirms the structural integrity of the
  result (a \<open>StructuralError\<close> when the required slot \<open>model\<close> is absent) and must not
  mutate any entity. The entities are passed through the call explicitly.
\<close>

definition training_Result_get ::
    "DataCollection \<Rightarrow> training_ResultId \<Rightarrow> SerializableObject option" where
  "training_Result_get this rid =
     (case rid of model \<Rightarrow> (case this of [] \<Rightarrow> None | m # _ \<Rightarrow> m))"

record entities =
  the_result :: DataCollection
  the_input :: training_Input
  the_parameter :: algorithms_Parameter

definition Result_check :: "int \<Rightarrow> entities \<Rightarrow> Status \<times> entities" where
  "Result_check method w =
     (case training_Result_get (the_result w) model of
        None \<Rightarrow> (Status_add StructuralError Status_ok, w)
      | Some m \<Rightarrow> (Status_ok, w))"

section \<open>Properties of the identifier enums\<close>

lemma InputId_values:
  "enum_values InputId = Some [(''data'', 0), (''dependentVariables'', 1), (''lastInputId'', 1)]"
  by (simp add: enum_values_def InputId_def)

lemma ResultId_values:
  "enum_values ResultId = Some [(''model'', 0), (''lastResultId'', 0)]"
  by (simp add: enum_values_def ResultId_def)

lemma QualityMetricId_values:
  "enum_values QualityMetricId = Some [(''confusionMatrix'', 0)]"
  by (simp add: enum_values_def QualityMetricId_def)

lemma upto_0_1: "[0 .. 1::int] = [0, 1]"
  by (simp add: upto.simps)

lemma upto_0_0: "[0 .. 0::int] = [0]"
  by (simp add: upto.simps)

lemma InputId_dense: "densely_packed InputId"
  by (simp add: densely_packed_def InputId_values valid_ids_def is_sentinel_def upto_0_1)

lemma ResultId_dense: "densely_packed ResultId"
  by (simp add: densely_packed_def ResultId_values valid_ids_def is_sentinel_def upto_0_0)

lemma QualityMetricId_dense: "densely_packed QualityMetricId"
  by (simp add: densely_packed_def QualityMetricId_values valid_ids_def is_sentinel_def upto_0_0)

lemma InputId_sentinel: "carries_last_sentinel InputId"
  by (simp add: carries_last_sentinel_def InputId_values valid_ids_def sentinels_def
      is_sentinel_def)

lemma ResultId_sentinel: "carries_last_sentinel ResultId"
  by (simp add: carries_last_sentinel_def ResultId_values valid_ids_def sentinels_def
      is_sentinel_def)

lemma QualityMetricId_no_sentinel:
  "map_option sentinels (enum_values QualityMetricId) = Some []"
  by (simp add: QualityMetricId_values sentinels_def is_sentinel_def)

text \<open>
  Claim C5, as stated: each of the regression training \<open>InputId\<close> and \<open>ResultId\<close> and the
  multi-class classifier \<open>QualityMetricId\<close> is densely packed and carries a \<open>lastXxxId\<close>
  sentinel equal to its largest valid identifier. This fails: \<open>QualityMetricId\<close> declares
  the single enumerator \<open>confusionMatrix = 0\<close> and no sentinel.
\<close>

theorem C5_QualityMetricId_sentinel_counterexample:
  "\<not> (densely_packed InputId \<and> carries_last_sentinel InputId \<and>
      densely_packed ResultId \<and> carries_last_sentinel ResultId \<and>
      densely_packed QualityMetricId \<and> carries_last_sentinel QualityMetricId)"
  by (simp add: carries_last_sentinel_def QualityMetricId_values sentinels_def is_sentinel_def)

text \<open>
  Claim C5, amended: the regression training \<open>InputId\<close> and \<open>ResultId\<close> are densely packed
  (their valid identifiers are \<open>0, 1\<close> and \<open>0\<close>) and each carries its sentinel
  (\<open>lastInputId = 1\<close>, \<open>lastResultId = 0\<close>) equal to its largest valid identifier; the
  multi-class classifier \<open>QualityMetricId\<close> is densely packed (its only identifier is
  \<open>confusionMatrix = 0\<close>) and declares no sentinel.
\<close>

theorem C5_identifier_enums:
  "densely_packed InputId \<and> carries_last_sentinel InputId \<and>
   map_option valid_ids (enum_values InputId) = Some [0, 1] \<and>
   map_option sentinels (enum_values InputId) = Some [(''lastInputId'', 1)] \<and>
   densely_packed ResultId \<and> carries_last_sentinel ResultId \<and>
   map_option valid_ids (enum_values ResultId) = Some [0] \<and>
   map_option sentinels (enum_values ResultId) = Some [(''lastResultId'', 0)] \<and>
   densely_packed QualityMetricId \<and>
   map_option valid_ids (enum_values QualityMetricId) = Some [0] \<and>
   map_option sentinels (enum_values QualityMetricId) = Some []"
  using InputId_dense InputId_sentinel ResultId_dense ResultId_sentinel QualityMetricId_dense
    QualityMetricId_no_sentinel
  by (simp add: InputId_values ResultId_values QualityMetricId_values valid_ids_def
      sentinels_def is_sentinel_def)

section \<open>Properties of the quality metric set Parameter\<close>

text \<open>
  Claim C10: constructing the multi-class classifier quality metric set \<open>Parameter\<close> with no
  argument yields \<open>nClasses = 2\<close>, which satisfies \<open>nClasses \<ge> 2\<close>; constructing it with an
  argument \<open>n\<close> yields \<open>nClasses = n\<close>.
\<close>

theorem C10_Parameter_ctor:
  "nClasses (Parameter_ctor None) = 2 \<and> 2 \<le> nClasses (Parameter_ctor None) \<and>
   nClasses (Parameter_ctor (Some n)) = n"
  by (simp add: Parameter_ctor_def)

section \<open>Properties of the quality metric set ResultCollection\<close>

text \<open>
  Claim C1, as stated: \<open>getResult\<close> performs a checked down-cast, so that it returns null
  when the dynamic type of the stored object is not the confusion matrix \<open>Result\<close>. This
  fails: for a collection whose entry \<open>confusionMatrix\<close> is the object at address 0, of
  dynamic type binary confusion matrix \<open>Result\<close>, \<open>getResult\<close> returns the non-null
  handle to address 0 declared as a multi-class confusion matrix \<open>Result\<close>, which is not
  well typed; a checked cast returns null there.
\<close>

theorem C1_static_cast_counterexample:
  "example_binary_store 0 = Some binary_confusion_matrix_Result \<and>
   ptr (KeyValueDataCollection_index example_collection
          (size_t_of_QualityMetricId confusionMatrix)) = Some 0 \<and>
   ptr (getResult example_collection confusionMatrix) = Some 0 \<and>
   \<not> well_typed example_binary_store (getResult example_collection confusionMatrix) \<and>
   ptr (checked_cast example_binary_store multiclass_confusion_matrix_Result
          (KeyValueDataCollection_index example_collection
             (size_t_of_QualityMetricId confusionMatrix))) = None"
  by (simp add: getResult_def staticPointerCast_def KeyValueDataCollection_index_def
      example_collection_def example_binary_store_def well_typed_def derives_from_def
      checked_cast_def)

text \<open>
  Claim C1, amended: \<open>getResult(id)\<close> performs an unchecked static down-cast. It returns
  the handle stored under \<open>id\<close> unchanged (null exactly when that handle is null), declared
  as a confusion matrix \<open>Result\<close>, whatever the dynamic type of the stored object. When the
  stored object's dynamic type is the confusion matrix \<open>Result\<close>, the returned handle is
  that object, is well typed, and equals what a checked cast returns.
\<close>

theorem C1_getResult_static_cast:
  "ptr (getResult rc qid) = ptr (KeyValueDataCollection_index rc (size_t_of_QualityMetricId qid)) \<and>
   pointee_type (getResult rc qid) = multiclass_confusion_matrix_Result \<and>
   (ptr (KeyValueDataCollection_index rc (size_t_of_QualityMetricId qid)) = Some a \<and>
    ts a = Some multiclass_confusion_matrix_Result \<longrightarrow>
      ptr (getResult rc qid) = Some a \<and> well_typed ts (getResult rc qid) \<and>
      getResult rc qid = checked_cast ts multiclass_confusion_matrix_Result
        (KeyValueDataCollection_index rc (size_t_of_QualityMetricId qid)))"
  by (simp add: getResult_def staticPointerCast_def well_typed_def derives_from_def
      checked_cast_def)

theorem C1_getResult_static_cast_witness:
  "ptr (KeyValueDataCollection_index example_collection
          (size_t_of_QualityMetricId confusionMatrix)) = Some 0 \<and>
   example_multiclass_store 0 = Some multiclass_confusion_matrix_Result \<and>
   ptr (getResult example_collection confusionMatrix) = Some 0 \<and>
   well_typed example_multiclass_store (getResult example_collection confusionMatrix)"
proof -
  have p: "ptr (KeyValueDataCollection_index example_collection
                  (size_t_of_QualityMetricId confusionMatrix)) = Some 0"
    "example_multiclass_store 0 = Some multiclass_confusion_matrix_Result"
    by (simp_all add: KeyValueDataCollection_index_def example_collection_def
        example_multiclass_store_def)
  from C1_getResult_static_cast[of example_collection confusionMatrix 0 example_multiclass_store] p
  show ?thesis by blast
qed

section \<open>Properties of the forward hyperbolic tangent layer allocation\<close>

lemmas alloc_eval = allocate_def Result_get_def Input_get_def getDimensions_def deref_def
  DAAL_ALLOCATE_TENSOR_AND_SET_def set_new_def new_def Result_set_def holds_tensor_def

lemmas alloc_unfold = allocate_def keeps_slots_def Result_get_def
  DAAL_ALLOCATE_TENSOR_AND_SET_def

lemma slots_set_new: "slots (set_new i ob s) = (slots s)(i := Some (length (heap s)))"
  by (simp add: set_new_def new_def Result_set_def)

lemma heap_set_new: "heap (set_new i ob s) = heap s @ [ob]"
  by (simp add: set_new_def new_def Result_set_def)

text \<open>\<open>allocate\<close> returns exactly when it does not read an absent or invalid data handle.\<close>

lemma allocate_returns_iff:
  "(\<exists>s'. allocate fp f inp par m s = Inr s') \<longleftrightarrow>
   (Result_get s layers_forward_value \<noteq> None \<or>
    holds_tensor (heap s) (Input_get inp layers_forward_data))"
  by (auto simp: allocate_def holds_tensor_def split: option.splits sum.splits if_splits)

lemma allocate_skips_populated:
  assumes "keeps_slots f" "allocate fp f inp par m s = Inr s'" "Result_get s i \<noteq> None"
  shows "Result_get s' i = Result_get s i"
  using assms
  by (cases i) (auto simp: alloc_unfold slots_set_new split: option.splits sum.splits if_splits)

lemma allocate_value_populated:
  assumes "keeps_slots f" "allocate fp f inp par m s = Inr s'"
  shows "Result_get s' layers_forward_value \<noteq> None"
  using assms
  by (auto simp: alloc_unfold slots_set_new split: option.splits sum.splits if_splits)

lemma allocate_resultForBackward_populated:
  assumes "keeps_slots f" "allocate fp f inp par m s = Inr s'" "\<not> predictionStage par"
  shows "Result_get s' layers_forward_resultForBackward \<noteq> None"
  using assms
  by (auto simp: alloc_unfold slots_set_new split: option.splits sum.splits if_splits)

lemma allocate_predictionStage_resultForBackward:
  assumes "allocate fp f inp par m s = Inr s'" "predictionStage par"
  shows "Result_get s' layers_forward_resultForBackward =
         Result_get s layers_forward_resultForBackward"
  using assms
  by (auto simp: alloc_unfold slots_set_new split: option.splits sum.splits if_splits)

lemma allocate_twice:
  assumes "keeps_slots f" "allocate fp f inp par m s = Inr s1"
  shows "\<exists>s2. allocate fp f inp par m s1 = Inr s2 \<and> slots s2 = slots s1"
proof -
  have v: "Result_get s1 layers_forward_value \<noteq> None"
    using assms by (rule allocate_value_populated)
  have r: "\<not> predictionStage par \<Longrightarrow> Result_get s1 layers_forward_resultForBackward \<noteq> None"
    using assms by (rule allocate_resultForBackward_populated)
  show ?thesis using v r assms(1)
    by (auto simp: allocate_def keeps_slots_def)
qed

lemma keeps_slots_store_auxValue: "keeps_slots store_auxValue"
  by (auto simp: keeps_slots_def store_auxValue_def split: option.splits object.splits)

lemma keeps_tensors_store_auxValue: "keeps_tensors store_auxValue"
  by (auto simp: keeps_tensors_def store_auxValue_def deref_def nth_list_update
      split: option.splits object.splits)

lemma example_preallocated_run:
  "\<exists>s1. allocate fp_float store_auxValue example_input \<lparr>predictionStage = False\<rparr> 0
           example_preallocated = Inr s1 \<and>
     Result_get s1 layers_forward_resultForBackward = Some 2"
  by (simp add: alloc_eval store_auxValue_def example_input_def example_preallocated_def)

text \<open>
  Claim C2: for every input, parameter and method, a slot of the \<open>Result\<close> that is
  populated is skipped by \<open>allocate\<close>: its handle is the same after the call. So when
  \<open>allocate\<close> is called a second time with the same input and parameter, after a first
  call that returned, the second call returns and every slot, in particular each slot the
  first call populated, holds the same object as before it. The virtual
  \<open>setResultForBackward\<close> is taken to leave the handles in the slots in place.
\<close>

theorem C2_allocate_skips_populated_slots:
  assumes "keeps_slots setResultForBackward"
      and "allocate fp setResultForBackward input par method s = Inr s1"
  shows "(\<forall>i. Result_get s i \<noteq> None \<longrightarrow> Result_get s1 i = Result_get s i) \<and>
         (\<exists>s2. allocate fp setResultForBackward input par method s1 = Inr s2 \<and>
               (\<forall>i. Result_get s2 i = Result_get s1 i))"
  using allocate_skips_populated[OF assms] allocate_twice[OF assms]
  by (auto simp: Result_get_def)

theorem C2_allocate_skips_populated_slots_witness:
  "keeps_slots store_auxValue \<and>
   Result_get example_preallocated layers_forward_value = Some 1 \<and>
   Result_get example_preallocated layers_forward_resultForBackward = None \<and>
   (\<exists>s1. allocate fp_float store_auxValue example_input \<lparr>predictionStage = False\<rparr> 0
            example_preallocated = Inr s1 \<and>
      Result_get s1 layers_forward_value = Some 1 \<and>
      Result_get s1 layers_forward_resultForBackward = Some 2 \<and>
      (\<exists>s2. allocate fp_float store_auxValue example_input \<lparr>predictionStage = False\<rparr> 0 s1 = Inr s2 \<and>
         Result_get s2 layers_forward_value = Some 1 \<and>
         Result_get s2 layers_forward_resultForBackward = Some 2))"
proof -
  have p: "Result_get example_preallocated layers_forward_value = Some 1"
    "Result_get example_preallocated layers_forward_resultForBackward = None"
    by (simp_all add: Result_get_def example_preallocated_def)
  obtain s1 where s1:
    "allocate fp_float store_auxValue example_input \<lparr>predictionStage = False\<rparr> 0
       example_preallocated = Inr s1"
    "Result_get s1 layers_forward_resultForBackward = Some 2"
    using example_preallocated_run by blast
  note c2 = C2_allocate_skips_populated_slots[OF keeps_slots_store_auxValue s1(1)]
  from c2 p(1) have v: "Result_get s1 layers_forward_value = Some 1"
    by auto
  from c2 obtain s2 where
    "allocate fp_float store_auxValue example_input \<lparr>predictionStage = False\<rparr> 0 s1 = Inr s2"
    "\<forall>i. Result_get s2 i = Result_get s1 i"
    by blast
  with s1 v p keeps_slots_store_auxValue show ?thesis by auto
qed

text \<open>
  Claim C3, as stated: for every input whose data slot holds a tensor of dimensions
  \<open>[N, D]\<close>, \<open>allocate\<close> populates the value slot with a tensor of exactly these dimensions.
  This fails when the value slot is populated before the call: with a data tensor of
  dimensions \<open>[2, 3]\<close> and a value slot that already holds a tensor of dimensions \<open>[1]\<close>,
  \<open>allocate\<close> skips the slot, which holds the tensor of dimensions \<open>[1]\<close> afterwards.
\<close>

theorem C3_preallocated_value_counterexample:
  "Input_get example_input layers_forward_data = Some 0 \<and>
   getDimensions (heap example_preallocated) 0 = Some [2, 3] \<and>
   (\<exists>s'. allocate fp_float store_auxValue example_input \<lparr>predictionStage = True\<rparr> 0
            example_preallocated = Inr s' \<and>
      Result_get s' layers_forward_value = Some 1 \<and>
      getDimensions (heap s') 1 = Some [1])"
  by (simp add: alloc_eval store_auxValue_def example_input_def example_preallocated_def)

text \<open>
  Claim C3, amended: for every input whose data slot holds a tensor of dimensions \<open>dims\<close>
  (such as \<open>[N, D]\<close>) and every element type \<open>algorithmFPType\<close>, when the value slot of
  the \<open>Result\<close> is absent before the call, \<open>allocate\<close> returns and the value slot then
  holds a tensor of element type \<open>algorithmFPType\<close> and of exactly the dimensions \<open>dims\<close>
  read from the input data tensor. The virtual \<open>setResultForBackward\<close> is taken to leave
  slot handles and tensor objects in place.
\<close>

theorem C3_allocate_value_dimensions:
  assumes "keeps_slots setResultForBackward"
      and "keeps_tensors setResultForBackward"
      and "Result_get s layers_forward_value = None"
      and "Input_get input layers_forward_data = Some a"
      and "getDimensions (heap s) a = Some dims"
  shows "\<exists>s' v. allocate algorithmFPType setResultForBackward input par method s = Inr s' \<and>
           Result_get s' layers_forward_value = Some v \<and>
           deref (heap s') v = Some (HomogenTensor algorithmFPType dims)"
proof -
  let ?s1 = "DAAL_ALLOCATE_TENSOR_AND_SET algorithmFPType layers_forward_value dims s"
  let ?v = "length (heap s)"
  have v1: "slots ?s1 layers_forward_value = Some ?v"
    by (simp add: DAAL_ALLOCATE_TENSOR_AND_SET_def slots_set_new)
  have h1: "deref (heap ?s1) ?v = Some (HomogenTensor algorithmFPType dims)"
    by (simp add: DAAL_ALLOCATE_TENSOR_AND_SET_def heap_set_new deref_def)
  show ?thesis
  proof (cases "predictionStage par")
    case True
    then have "allocate algorithmFPType setResultForBackward input par method s = Inr ?s1"
      using assms(3-5) by (simp add: allocate_def)
    with v1 h1 show ?thesis by (auto simp: Result_get_def)
  next
    case False
    let ?s2 = "if Result_get ?s1 layers_forward_resultForBackward = None
               then set_new layers_forward_resultForBackward (LayerData []) ?s1 else ?s1"
    have a: "allocate algorithmFPType setResultForBackward input par method s =
             Inr (setResultForBackward input ?s2)"
      using False assms(3-5) by (simp add: allocate_def)
    have v2: "slots ?s2 layers_forward_value = Some ?v"
      using v1 by (simp add: slots_set_new)
    have h2: "deref (heap ?s2) ?v = Some (HomogenTensor algorithmFPType dims)"
      using h1 by (auto simp: heap_set_new deref_def nth_append)
    from v2 assms(1) have "slots (setResultForBackward input ?s2) layers_forward_value = Some ?v"
      by (simp add: keeps_slots_def)
    moreover from h2 assms(2)
    have "deref (heap (setResultForBackward input ?s2)) ?v =
          Some (HomogenTensor algorithmFPType dims)"
      unfolding keeps_tensors_def by blast
    ultimately show ?thesis using a by (auto simp: Result_get_def)
  qed
qed

theorem C3_allocate_value_dimensions_witness:
  "keeps_slots store_auxValue \<and> keeps_tensors store_auxValue \<and>
   Result_get example_fresh layers_forward_value = None \<and>
   Input_get example_input layers_forward_data = Some 0 \<and>
   getDimensions (heap example_fresh) 0 = Some [2, 3] \<and>
   (\<exists>s' v. allocate fp_float store_auxValue example_input \<lparr>predictionStage = False\<rparr> 0
              example_fresh = Inr s' \<and>
      Result_get s' layers_forward_value = Some v \<and>
      deref (heap s') v = Some (HomogenTensor fp_float [2, 3]))"
proof -
  have p: "Result_get example_fresh layers_forward_value = None"
    "Input_get example_input layers_forward_data = Some 0"
    "getDimensions (heap example_fresh) 0 = Some [2, 3]"
    by (simp_all add: alloc_eval example_input_def example_fresh_def)
  from C3_allocate_value_dimensions[OF keeps_slots_store_auxValue keeps_tensors_store_auxValue p,
      of fp_float "\<lparr>predictionStage = False\<rparr>" 0]
  show ?thesis using p keeps_slots_store_auxValue keeps_tensors_store_auxValue by simp
qed

text \<open>
  Claim C4: for every input and method on which \<open>allocate\<close> runs to its end (the value slot
  is populated already, or the data slot of the input holds a tensor), after \<open>allocate\<close>:
  if \<open>predictionStage\<close> is true, the \<open>resultForBackward\<close> slot is as it was before the call,
  so it remains absent; if \<open>predictionStage\<close> is false, the \<open>resultForBackward\<close> slot is
  present and non-null. The virtual \<open>setResultForBackward\<close> is taken to leave the handles
  in the slots in place.
\<close>

theorem C4_predictionStage_gates_resultForBackward:
  assumes "keeps_slots setResultForBackward"
      and "Result_get s layers_forward_value \<noteq> None \<or>
           holds_tensor (heap s) (Input_get input layers_forward_data)"
  shows "\<exists>s'. allocate fp setResultForBackward input par method s = Inr s' \<and>
           (predictionStage par \<longrightarrow>
              Result_get s' layers_forward_resultForBackward =
              Result_get s layers_forward_resultForBackward) \<and>
           (\<not> predictionStage par \<longrightarrow>
              Result_get s' layers_forward_resultForBackward \<noteq> None)"
proof -
  from assms(2) obtain s' where s': "allocate fp setResultForBackward input par method s = Inr s'"
    using allocate_returns_iff by blast
  have "predictionStage par \<Longrightarrow> Result_get s' layers_forward_resultForBackward =
              Result_get s layers_forward_resultForBackward"
    using s' by (rule allocate_predictionStage_resultForBackward)
  moreover have "\<not> predictionStage par \<Longrightarrow>
      Result_get s' layers_forward_resultForBackward \<noteq> None"
    using assms(1) s' by (rule allocate_resultForBackward_populated)
  ultimately show ?thesis using s' by blast
qed

theorem C4_predictionStage_gates_resultForBackward_witness:
  "keeps_slots store_auxValue \<and>
   holds_tensor (heap example_fresh) (Input_get example_input layers_forward_data) \<and>
   Result_get example_fresh layers_forward_resultForBackward = None \<and>
   (\<exists>s'. allocate fp_float store_auxValue example_input \<lparr>predictionStage = True\<rparr> 0
            example_fresh = Inr s' \<and>
      Result_get s' layers_forward_resultForBackward = None) \<and>
   (\<exists>s'. allocate fp_float store_auxValue example_input \<lparr>predictionStage = False\<rparr> 0
            example_fresh = Inr s' \<and>
      Result_get s' layers_forward_resultForBackward \<noteq> None)"
proof -
  have h: "holds_tensor (heap example_fresh) (Input_get example_input layers_forward_data)"
    by (simp add: alloc_eval example_input_def example_fresh_def)
  then have p: "Result_get example_fresh layers_forward_value \<noteq> None \<or>
     holds_tensor (heap example_fresh) (Input_get example_input layers_forward_data)"
    by simp
  have q: "Result_get example_fresh layers_forward_resultForBackward = None"
    by (simp add: alloc_eval example_fresh_def)
  from C4_predictionStage_gates_resultForBackward[OF keeps_slots_store_auxValue p,
      of fp_float "\<lparr>predictionStage = True\<rparr>" 0]
    C4_predictionStage_gates_resultForBackward[OF keeps_slots_store_auxValue p,
      of fp_float "\<lparr>predictionStage = False\<rparr>" 0]
  show ?thesis using keeps_slots_store_auxValue h q by auto
qed

text \<open>
  Claim C9, as stated: \<open>allocate\<close> dereferences the handle returned by the input's
  \<open>get(data)\<close> unconditionally, so that it is safe only when the data slot of the input is
  non-absent. This fails when the value slot is populated before the call: the read of the
  data handle is inside the test that the value slot is absent, so for an input with an
  absent data slot and a \<open>Result\<close> whose value slot is populated, \<open>allocate\<close> returns
  normally (here, in the prediction stage, leaving the state as it was).
\<close>

theorem C9_populated_value_counterexample:
  "Input_get example_input_no_data layers_forward_data = None \<and>
   Result_get example_preallocated layers_forward_value = Some 1 \<and>
   allocate fp_float store_auxValue example_input_no_data \<lparr>predictionStage = True\<rparr> 0
     example_preallocated = Inr example_preallocated"
  by (simp add: alloc_eval example_input_no_data_def example_preallocated_def)

text \<open>
  Claim C9, amended: \<open>allocate\<close> performs no presence validation of its input. When the
  value slot of the \<open>Result\<close> is absent, it dereferences the handle returned by the
  input's \<open>get(data)\<close> without a check, and for an input whose data slot is absent there
  is no guarded error branch: the call is a null dereference, whatever the parameter and
  the method. \<open>allocate\<close> returns exactly when the value slot is populated already (the
  data slot is then not read) or the data slot holds a tensor.
\<close>

theorem C9_allocate_data_precondition:
  "(Result_get s layers_forward_value = None \<and> Input_get input layers_forward_data = None \<longrightarrow>
      allocate fp setResultForBackward input par method s = Inl NullDereference) \<and>
   ((\<exists>s'. allocate fp setResultForBackward input par method s = Inr s') \<longleftrightarrow>
      (Result_get s layers_forward_value \<noteq> None \<or>
       holds_tensor (heap s) (Input_get input layers_forward_data)))"
proof -
  have "Result_get s layers_forward_value = None \<and> Input_get input layers_forward_data = None \<longrightarrow>
      allocate fp setResultForBackward input par method s = Inl NullDereference"
    by (simp add: allocate_def)
  then show ?thesis using allocate_returns_iff[of fp setResultForBackward input par _ s]
    by blast
qed

theorem C9_allocate_data_precondition_witness:
  "Result_get example_fresh layers_forward_value = None \<and>
   Input_get example_input_no_data layers_forward_data = None \<and>
   allocate fp_float store_auxValue example_input_no_data \<lparr>predictionStage = False\<rparr> 0
     example_fresh = Inl NullDereference \<and>
   holds_tensor (heap example_fresh) (Input_get example_input layers_forward_data) \<and>
   (\<exists>s'. allocate fp_float store_auxValue example_input \<lparr>predictionStage = False\<rparr> 0
     example_fresh = Inr s')"
proof -
  have p: "Result_get example_fresh layers_forward_value = None"
     "Input_get example_input_no_data layers_forward_data = None"
     "holds_tensor (heap example_fresh) (Input_get example_input layers_forward_data)"
    by (simp_all add: alloc_eval example_input_def example_input_no_data_def example_fresh_def)
  from C9_allocate_data_precondition[of example_fresh example_input_no_data fp_float
      store_auxValue "\<lparr>predictionStage = False\<rparr>" 0]
    C9_allocate_data_precondition[of example_fresh example_input fp_float store_auxValue
      "\<lparr>predictionStage = False\<rparr>" 0]
  show ?thesis using p by blast
qed

section \<open>Properties of regression training\<close>

text \<open>
  Claim C7: for every regression training \<open>Input\<close> whose data slot has 10 rows, \<open>check\<close>
  returns a status whose fatal error is \<open>ShapeMismatchError\<close> when the
  \<open>dependentVariables\<close> slot has 8 rows, and a status with no fatal error when it has 10
  rows.
\<close>

theorem C7_Input_check_rows:
  assumes "this data = Some x" and "numberOfRows x = 10" and "this dependentVariables = Some y"
  shows "(numberOfRows y = 8 \<longrightarrow> fatal (Input_check this par method) = Some ShapeMismatchError) \<and>
         (numberOfRows y = 10 \<longrightarrow> fatal (Input_check this par method) = None)"
  using assms by (simp add: Input_check_def Status_add_def Status_ok_def)

theorem C7_Input_check_rows_witness:
  "example_tables 10 8 data = Some \<lparr>numberOfRows = 10, numberOfColumns = 3\<rparr> \<and>
   example_tables 10 8 dependentVariables = Some \<lparr>numberOfRows = 8, numberOfColumns = 1\<rparr> \<and>
   fatal (Input_check (example_tables 10 8) algorithms_Parameter 0) = Some ShapeMismatchError \<and>
   example_tables 10 10 dependentVariables = Some \<lparr>numberOfRows = 10, numberOfColumns = 1\<rparr> \<and>
   fatal (Input_check (example_tables 10 10) algorithms_Parameter 0) = None"
proof -
  have a: "example_tables 10 8 data = Some \<lparr>numberOfRows = 10, numberOfColumns = 3\<rparr>"
    "example_tables 10 8 dependentVariables = Some \<lparr>numberOfRows = 8, numberOfColumns = 1\<rparr>"
    "example_tables 10 10 data = Some \<lparr>numberOfRows = 10, numberOfColumns = 3\<rparr>"
    "example_tables 10 10 dependentVariables = Some \<lparr>numberOfRows = 10, numberOfColumns = 1\<rparr>"
    by (simp_all add: example_tables_def)
  from C7_Input_check_rows[OF a(1) _ a(2), of algorithms_Parameter 0]
    C7_Input_check_rows[OF a(3) _ a(4), of algorithms_Parameter 0] a
  show ?thesis by simp
qed

text \<open>
  Claim C8: for every regression training \<open>Result\<close>, input, parameter and method,
  \<open>Result::check\<close> mutates no entity: the slot collection of the \<open>Result\<close>, the input and
  the parameter are the same after the call.
\<close>

theorem C8_Result_check_frame:
  "snd (Result_check method w) = w \<and>
   the_result (snd (Result_check method w)) = the_result w \<and>
   the_input (snd (Result_check method w)) = the_input w \<and>
   the_parameter (snd (Result_check method w)) = the_parameter w"
  by (simp add: Result_check_def split: option.splits)

lemma read_write_object: "read_object (write_object ob @ rest) = Inr (ob, rest)"
  by (cases ob) auto

lemma read_write_objects:
  "read_objects (length c) (concat (map write_object c) @ rest) = Inr (c, rest)"
  by (induction c) (simp_all add: read_write_object)

lemma read_write_collection: "read_collection (write_collection c @ rest) = Inr (c, rest)"
  by (simp add: read_collection_def write_collection_def read_write_objects)

text \<open>
  Claim C6: for every regression training \<open>Result\<close> or \<open>PartialResult\<close> with slot
  collection \<open>r\<close>, serialization writes what the \<open>serialImpl\<close> of the base class writes and
  nothing after it (there is no field specific to regression training), and deserializing
  what was written, into an object of any prior content \<open>r0\<close>, yields the slot collection
  \<open>r\<close>: the same slots populated, with objects of the same tags and contents. Data that
  follows in the archive is left unread.
\<close>

theorem C6_serialization_round_trip:
  "Result_serializeImpl (arch, r) = algorithms_Result_serialImpl False (arch, r) \<and>
   Result_serializeImpl (arch, r) = Inr (arch @ write_collection r, r) \<and>
   Result_deserializeImpl (write_collection r @ rest, r0) = Inr (rest, r) \<and>
   PartialResult_serializeImpl (arch, r) = algorithms_PartialResult_serialImpl False (arch, r) \<and>
   PartialResult_serializeImpl (arch, r) = Inr (arch @ write_collection r, r) \<and>
   PartialResult_deserializeImpl (write_collection r @ rest, r0) = Inr (rest, r)"
  by (simp add: Result_serializeImpl_def Result_deserializeImpl_def Result_serialImpl_def
      PartialResult_serializeImpl_def PartialResult_deserializeImpl_def
      PartialResult_serialImpl_def algorithms_Result_serialImpl_def
      algorithms_PartialResult_serialImpl_def Argument_serialImpl_def read_write_collection)

end
